theory Spec2Isabelle
  imports Complex_Main "HOL-Library.AList"
begin

section \<open>Python strings\<close>

text \<open>
  Strings are lists of characters. The whitespace of \<^verbatim>\<open>str.strip()\<close> and
  \<^verbatim>\<open>str.split()\<close> is the set of code points below 256 for which Python's
  \<^verbatim>\<open>str.isspace()\<close> holds.
\<close>

definition isspace :: "char \<Rightarrow> bool" where
  "isspace c = (of_char c \<in> {9, 10, 11, 12, 13, 28, 29, 30, 31, 32, 133, 160 :: nat})"

definition py_strip :: "string \<Rightarrow> string" where
  "py_strip s = rev (dropWhile isspace (rev (dropWhile isspace s)))"

text \<open>\<^verbatim>\<open>s.split()\<close>: the maximal runs of non-whitespace, scanned left to right.\<close>

fun split_acc :: "string \<Rightarrow> string \<Rightarrow> string list" where
  "split_acc cur [] = (if cur = [] then [] else [cur])"
| "split_acc cur (c # cs) =
     (if isspace c then (if cur = [] then split_acc [] cs else cur # split_acc [] cs)
      else split_acc (cur @ [c]) cs)"

definition py_split :: "string \<Rightarrow> string list" where
  "py_split s = split_acc [] s"

text \<open>\<^verbatim>\<open>s.split(';;')\<close>: the pieces between non-overlapping occurrences of the marker.\<close>

fun split_marker :: "string \<Rightarrow> string \<Rightarrow> string list" where
  "split_marker cur [] = [cur]"
| "split_marker cur [c] = [cur @ [c]]"
| "split_marker cur (c # d # cs) =
     (if c = CHR '';'' \<and> d = CHR '';'' then cur # split_marker [] cs
      else split_marker (cur @ [c]) (d # cs))"

definition startswith :: "string \<Rightarrow> string \<Rightarrow> bool" where
  "startswith s p = (take (length p) s = p)"

definition endswith :: "string \<Rightarrow> string \<Rightarrow> bool" where
  "endswith s p = (length p \<le> length s \<and> drop (length s - length p) s = p)"

text \<open>\<^verbatim>\<open>sep.join(xs)\<close>.\<close>

fun join :: "string \<Rightarrow> string list \<Rightarrow> string" where
  "join sep [] = []"
| "join sep [x] = x"
| "join sep (x # y # ys) = x @ sep @ join sep (y # ys)"

text \<open>\<^verbatim>\<open>s[2:-1]\<close>, the identifier inside a mention \<^verbatim>\<open><@...>\<close>.\<close>

definition mention_body :: "string \<Rightarrow> string" where
  "mention_body s = drop 2 (butlast s)"

text \<open>\<^verbatim>\<open>str(n)\<close> for the integers that are formatted into replies.\<close>

fun str_nat :: "nat \<Rightarrow> string" where
  "str_nat n =
     (if n < 10 then [char_of (48 + n)]
      else str_nat (n div 10) @ [char_of (48 + n mod 10)])"

definition str_int :: "int \<Rightarrow> string" where
  "str_int i = (if i < 0 then CHR ''-'' # str_nat (nat (- i)) else str_nat (nat i))"

section \<open>Command results\<close>

datatype CommandResponse = SUCCESS | FAILURE | NO_PERMISSION | INVALID_ARGS | COOLDOWN

text \<open>
  The message of a result is a string or a \<^verbatim>\<open>discord.File\<close>. The field
  \<^verbatim>\<open>error\<close> of the dataclass is never set by the program and is left out.
\<close>

datatype payload = Text string | File nat

record CommandResult =
  status :: CommandResponse
  message :: "payload option"

definition result :: "CommandResponse \<Rightarrow> string \<Rightarrow> CommandResult" where
  "result st m = \<lparr>status = st, message = Some (Text m)\<rparr>"

text \<open>Python truthiness of \<^verbatim>\<open>response.message\<close>.\<close>

fun truthy :: "payload option \<Rightarrow> bool" where
  "truthy None = False"
| "truthy (Some (Text s)) = (s \<noteq> [])"
| "truthy (Some (File f)) = True"

section \<open>Configuration, state and environment\<close>

type_synonym user_db = "(string \<times> string) list"
type_synonym database = "(int \<times> user_db) list"

text \<open>
  The modules \<^verbatim>\<open>constants\<close> and \<^verbatim>\<open>do_not_push\<close> are configuration: their
  values are parameters. The two regular expressions are taken as the predicates
  \<^verbatim>\<open>re.match\<close> decides.
\<close>

record constants =
  ADMINS :: "int list"
  COMMAND_COOLDOWN :: real
  REPLACE :: "string \<Rightarrow> bool"
  COMMAND :: "string \<Rightarrow> bool"
  KEY_EXISTS_ADD :: string
  SUCCESSFUL :: string
  UNSUCCESSFUL :: string
  EMPTY_MESSAGE :: string
  EMPTY_LIST :: string
  KEY_NOT_FOUND :: string
  KEY_EXISTS_RENAME :: string
  WRONG_ARGS :: string
  WRONG_ARGS_ADD :: string
  WRONG_ARGS_DEL :: string
  WRONG_USER_ID :: string
  HELP_TEXT :: string

text \<open>
  The state of the process: the store (a \<^verbatim>\<open>SqliteDict\<close> from user identifiers to
  dictionaries), the backup schedule of the \<^verbatim>\<open>DatabaseManager\<close>, the cooldown
  table of the \<^verbatim>\<open>CommandHandler\<close>, the mutable list
  \<^verbatim>\<open>constants.BLACKLIST\<close>, and the backup files on disk (path to contents).
  Time stamps are idealised as real numbers of seconds.
\<close>

record bot_state =
  db_name :: string
  db :: database
  last_backup :: real
  backup_interval :: real
  command_cooldowns :: "string \<rightharpoonup> (int \<rightharpoonup> real)"
  BLACKLIST :: "int list"
  files :: "string \<rightharpoonup> database"

text \<open>
  What one event reads from outside the program: the clock, as a time stamp and as the
  formatted string that names a backup file, and the faults of the event. With
  \<open>db_error = Some e\<close> every access to the live store raises an exception with text
  \<open>e\<close>; with \<open>backup_fault = Some n\<close> the operations on the backup file raise after
  \<open>n\<close> of them have succeeded; with \<open>mkdir_error = Some e\<close> creating the backup
  directory raises; with \<open>unlink_error = Some e\<close> removing the backup file raises.
\<close>

record env =
  now :: real
  stamp :: string
  db_error :: "string option"
  backup_fault :: "nat option"
  mkdir_error :: "string option"
  unlink_error :: "string option"

section \<open>Permission\<close>

definition is_admin :: "constants \<Rightarrow> int \<Rightarrow> bool" where
  "is_admin c user_id = (user_id \<in> set (ADMINS c))"

definition is_blacklisted :: "bot_state \<Rightarrow> int \<Rightarrow> bool" where
  "is_blacklisted s user_id = (user_id \<in> set (BLACKLIST s))"

section \<open>DatabaseManager\<close>

text \<open>\<^verbatim>\<open>self.db.get(user, {})\<close>.\<close>

definition db_get :: "database \<Rightarrow> int \<Rightarrow> user_db" where
  "db_get d user = (case map_of d user of None \<Rightarrow> [] | Some user_db \<Rightarrow> user_db)"

text \<open>
  \<^verbatim>\<open>store_text\<close>: \<open>Inl\<close> is the \<^verbatim>\<open>DatabaseError\<close> raised when the store fails.
\<close>

definition store_text ::
  "constants \<Rightarrow> env \<Rightarrow> bot_state \<Rightarrow> int \<Rightarrow> string \<Rightarrow> string \<Rightarrow> bool
     \<Rightarrow> (string + CommandResult) \<times> bot_state" where
  "store_text c e s user key val overwrite =
     (case db_error e of
        Some err \<Rightarrow> (Inl (''Failed to store text: '' @ err), s)
      | None \<Rightarrow>
          (let user_db = db_get (db s) user in
           if map_of user_db key \<noteq> None \<and> \<not> overwrite
           then (Inr (result FAILURE (KEY_EXISTS_ADD c)), s)
           else (Inr (result SUCCESS (SUCCESSFUL c)),
                 s\<lparr>db := AList.update user (AList.update key val user_db) (db s)\<rparr>)))"

definition retrieve_text :: "env \<Rightarrow> bot_state \<Rightarrow> int \<Rightarrow> string \<Rightarrow> string option" where
  "retrieve_text e s user key =
     (case db_error e of
        Some err \<Rightarrow> None
      | None \<Rightarrow> map_of (db_get (db s) user) key)"

definition get_user_keys :: "env \<Rightarrow> bot_state \<Rightarrow> int \<Rightarrow> string list" where
  "get_user_keys e s user =
     (case db_error e of
        Some err \<Rightarrow> []
      | None \<Rightarrow> map fst (db_get (db s) user))"

definition delete_key :: "env \<Rightarrow> bot_state \<Rightarrow> int \<Rightarrow> string \<Rightarrow> bool \<times> bot_state" where
  "delete_key e s user key =
     (case db_error e of
        Some err \<Rightarrow> (False, s)
      | None \<Rightarrow>
          (let user_db = db_get (db s) user in
           if map_of user_db key \<noteq> None
           then (True, s\<lparr>db := AList.update user (AList.delete key user_db) (db s)\<rparr>)
           else (False, s)))"

text \<open>
  The body of the \<^verbatim>\<open>try\<close> of \<^verbatim>\<open>create_backup\<close>: open the backup file (an
  existing file keeps its entries), copy every entry of the live store, close. Each of
  these is one operation on the backup file; \<open>f\<close> counts how many of them succeed
  before one raises. The result says whether the block completed, and gives the disk.
\<close>

definition spend :: "nat option \<Rightarrow> nat option" where
  "spend f = map_option (\<lambda>n. n - 1) f"

fun copy_keys :: "nat option \<Rightarrow> database \<Rightarrow> database \<Rightarrow> bool \<times> nat option \<times> database" where
  "copy_keys f [] backup_db = (True, f, backup_db)"
| "copy_keys f ((key, v) # rest) backup_db =
     (if f = Some 0 then (False, f, backup_db)
      else copy_keys (spend f) rest (AList.update key v backup_db))"

definition snapshot_write ::
  "env \<Rightarrow> database \<Rightarrow> string \<Rightarrow> (string \<rightharpoonup> database) \<Rightarrow> bool \<times> (string \<rightharpoonup> database)" where
  "snapshot_write e live backup_path fs =
     (if backup_fault e = Some 0 then (False, fs)
      else
        (let backup_db = (case fs backup_path of None \<Rightarrow> [] | Some old \<Rightarrow> old) in
         if db_error e \<noteq> None then (False, fs(backup_path \<mapsto> backup_db))
         else
           (case copy_keys (spend (backup_fault e)) live backup_db of
              (copied, f, backup_db') \<Rightarrow>
                if \<not> copied then (False, fs(backup_path \<mapsto> backup_db'))
                else if f = Some 0 then (False, fs(backup_path \<mapsto> backup_db'))
                else (True, fs(backup_path \<mapsto> backup_db')))))"

text \<open>
  \<^verbatim>\<open>create_backup\<close>. A failure inside the \<^verbatim>\<open>try\<close> removes the backup file if
  it exists and returns \<^verbatim>\<open>False\<close>. \<open>Inl\<close> is an exception that leaves the method:
  that of \<^verbatim>\<open>mkdir\<close>, which is outside the \<^verbatim>\<open>try\<close>, or that of
  \<^verbatim>\<open>unlink\<close>, which is called unguarded in the \<^verbatim>\<open>except\<close> block (the backup
  \<^verbatim>\<open>SqliteDict\<close> is not closed on that path); the file then stays where it is.
\<close>

definition create_backup :: "env \<Rightarrow> bot_state \<Rightarrow> (string + bool) \<times> bot_state" where
  "create_backup e s =
     (case mkdir_error e of
        Some err \<Rightarrow> (Inl err, s)
      | None \<Rightarrow>
          (let backup_path = ''backups/'' @ db_name s @ ''_backup_'' @ stamp e @ ''.sqlite'' in
           case snapshot_write e (db s) backup_path (files s) of
             (True, fs) \<Rightarrow> (Inr True, s\<lparr>files := fs\<rparr>)
           | (False, fs) \<Rightarrow>
               (if fs backup_path \<noteq> None
                then (case unlink_error e of
                        Some err \<Rightarrow> (Inl err, s\<lparr>files := fs\<rparr>)
                      | None \<Rightarrow> (Inr False, s\<lparr>files := fs(backup_path := None)\<rparr>))
                else (Inr False, s\<lparr>files := fs\<rparr>))))"

text \<open>\<^verbatim>\<open>_periodic_backup\<close>: \<open>Inl\<close> is an exception that leaves the method.\<close>

definition periodic_backup :: "env \<Rightarrow> bot_state \<Rightarrow> (string + unit) \<times> bot_state" where
  "periodic_backup e s =
     (let current_time = now e in
      if current_time - last_backup s \<ge> backup_interval s
      then (case create_backup e s of
              (Inl err, s') \<Rightarrow> (Inl err, s')
            | (Inr b, s') \<Rightarrow> (Inr (), s'\<lparr>last_backup := current_time\<rparr>))
      else (Inr (), s))"

section \<open>Messages\<close>

text \<open>
  A replied-to message as far as the program reads it, and the
  \<^verbatim>\<open>MessageReference\<close> of a reply, whose \<^verbatim>\<open>resolved\<close> may be missing.
\<close>

record ref_message =
  r_id :: nat
  r_content :: string
  r_attachments :: "string list"
  r_stickers :: "(string \<times> string) list"

datatype reference = Reference (resolved: "ref_message option")

record inbound =
  msg_id :: nat
  author :: int
  author_is_client :: bool
  author_bot :: bool
  content :: string
  msg_reference :: "reference option"

text \<open>A reply sent to the message with the given identifier.\<close>

datatype outbound = Reply nat payload

section \<open>Collaborators outside the sources\<close>

text \<open>
  The command modules \<^verbatim>\<open>delete_me\<close>, \<^verbatim>\<open>rename_key\<close>, \<^verbatim>\<open>steal\<close>, the text
  transformations, \<^verbatim>\<open>mock\<close> and \<^verbatim>\<open>deepfry\<close> are parameters, and so is Python's
  \<^verbatim>\<open>int()\<close> on a string (\<open>None\<close> when it raises \<^verbatim>\<open>ValueError\<close>). The modules
  that are handed the store return the store they leave; \<open>Inl\<close> is the text of an
  exception.
\<close>

record externals =
  py_int :: "string \<Rightarrow> int option"
  delete_me :: "database \<Rightarrow> int \<Rightarrow> (string + bool) \<times> database"
  rename_key :: "database \<Rightarrow> int \<Rightarrow> string \<Rightarrow> string \<Rightarrow> bool \<Rightarrow> (string + int) \<times> database"
  steal :: "database \<Rightarrow> int \<Rightarrow> string \<Rightarrow> int \<Rightarrow> string option \<Rightarrow> (string + bool) \<times> database"
  text_transform :: "string \<Rightarrow> reference \<Rightarrow> string + payload"
  mock :: "reference \<Rightarrow> string + payload"
  deepfry :: "reference \<Rightarrow> string + payload"

section \<open>CommandHandler\<close>

text \<open>\<^verbatim>\<open>_check_cooldown\<close>.\<close>

definition check_cooldown ::
  "constants \<Rightarrow> env \<Rightarrow> bot_state \<Rightarrow> int \<Rightarrow> string \<Rightarrow> bool \<times> bot_state" where
  "check_cooldown c e s user_id command =
     (let current_time = now e;
          cds = (if command_cooldowns s command = None
                 then (command_cooldowns s)(command \<mapsto> Map.empty)
                 else command_cooldowns s);
          per_user = (case cds command of None \<Rightarrow> Map.empty | Some m \<Rightarrow> m)
      in case per_user user_id of
           Some last_used \<Rightarrow>
             if current_time - last_used < COMMAND_COOLDOWN c
             then (False, s\<lparr>command_cooldowns := cds\<rparr>)
             else (True, s\<lparr>command_cooldowns := cds(command \<mapsto> per_user(user_id \<mapsto> current_time))\<rparr>)
         | None \<Rightarrow>
             (True, s\<lparr>command_cooldowns := cds(command \<mapsto> per_user(user_id \<mapsto> current_time))\<rparr>))"

text \<open>\<^verbatim>\<open>_get_attachments_text\<close>.\<close>

fun attachments_text :: "nat \<Rightarrow> string list \<Rightarrow> string" where
  "attachments_text i [] = []"
| "attachments_text i (url # urls) =
     ''[Attachment '' @ str_nat i @ '']('' @ url @ '') '' @ attachments_text (Suc i) urls"

fun stickers_text :: "(string \<times> string) list \<Rightarrow> string" where
  "stickers_text [] = []"
| "stickers_text ((name, url) # rest) = ''['' @ name @ '']('' @ url @ '') '' @ stickers_text rest"

definition get_attachments_text :: "ref_message \<Rightarrow> string" where
  "get_attachments_text m = attachments_text 0 (r_attachments m) @ stickers_text (r_stickers m)"

text \<open>
  \<^verbatim>\<open>_handle_add\<close>. Every exception inside its \<^verbatim>\<open>try\<close> (an index out of range,
  a reference that is not resolved, the \<^verbatim>\<open>DatabaseError\<close> of the store) becomes the
  failure \<^verbatim>\<open>Failed to add text\<close>.
\<close>

definition handle_add ::
  "constants \<Rightarrow> env \<Rightarrow> bot_state \<Rightarrow> int \<Rightarrow> string list \<Rightarrow> reference option \<Rightarrow> bool
     \<Rightarrow> CommandResult \<times> bot_state" where
  "handle_add c e s user args reply overwrite =
     (if length args = 1 \<or> (length args = 2 \<and> reply = None)
      then (result INVALID_ARGS (WRONG_ARGS_ADD c), s)
      else if length args = 2
      then (case reply of
              None \<Rightarrow> (result INVALID_ARGS (WRONG_ARGS_ADD c), s)
            | Some r \<Rightarrow>
                (case resolved r of
                   None \<Rightarrow> (result FAILURE ''Failed to add text'', s)
                 | Some m \<Rightarrow>
                     (let original_message = py_strip (r_content m) @ get_attachments_text m in
                      if original_message = []
                      then (result FAILURE (EMPTY_MESSAGE c), s)
                      else (case store_text c e s user (args ! 1) original_message overwrite of
                              (Inl err, s') \<Rightarrow> (result FAILURE ''Failed to add text'', s')
                            | (Inr res, s') \<Rightarrow> (res, s')))))
      else if length args < 2
      then (result FAILURE ''Failed to add text'', s)
      else (case store_text c e s user (args ! 1) (join '' '' (drop 2 args)) overwrite of
              (Inl err, s') \<Rightarrow> (result FAILURE ''Failed to add text'', s')
            | (Inr res, s') \<Rightarrow> (res, s')))"

text \<open>\<^verbatim>\<open>_handle_saved\<close>.\<close>

definition handle_saved ::
  "constants \<Rightarrow> externals \<Rightarrow> env \<Rightarrow> bot_state \<Rightarrow> int \<Rightarrow> string list \<Rightarrow> CommandResult" where
  "handle_saved c x e s user args =
     (if length args = 2 \<and> startswith (args ! 1) ''<@'' \<and> endswith (args ! 1) ''>''
      then (if \<not> is_admin c user
            then result NO_PERMISSION
                   (''You don'' @ [CHR 0x27] @ ''t have permission to view another user''
                      @ [CHR 0x27] @ ''s keys.'')
            else (case py_int x (mention_body (args ! 1)) of
                    None \<Rightarrow> result FAILURE ''Failed to retrieve saved items''
                  | Some mentioned_user_id \<Rightarrow>
                      (let keys = get_user_keys e s mentioned_user_id in
                       result SUCCESS
                         (if keys \<noteq> []
                          then ''Keys for <@'' @ str_int mentioned_user_id @ ''>:'' @ [CHR 0x0A]
                                 @ ''- '' @ join (CHR 0x0A # ''- '') keys
                          else EMPTY_LIST c))))
      else (let keys = get_user_keys e s user in
            result SUCCESS
              (if keys \<noteq> [] then ''- '' @ join (CHR 0x0A # ''- '') keys else EMPTY_LIST c)))"

text \<open>\<^verbatim>\<open>_handle_delete\<close>.\<close>

definition handle_delete ::
  "constants \<Rightarrow> env \<Rightarrow> bot_state \<Rightarrow> int \<Rightarrow> string list \<Rightarrow> CommandResult \<times> bot_state" where
  "handle_delete c e s user args =
     (if length args \<noteq> 2 then (result INVALID_ARGS (WRONG_ARGS_DEL c), s)
      else (case delete_key e s user (args ! 1) of
              (True, s') \<Rightarrow> (result SUCCESS (SUCCESSFUL c), s')
            | (False, s') \<Rightarrow> (result FAILURE (KEY_NOT_FOUND c), s')))"

text \<open>\<^verbatim>\<open>_handle_delete_me\<close>: an exception of the module is not caught here.\<close>

definition handle_delete_me ::
  "constants \<Rightarrow> externals \<Rightarrow> bot_state \<Rightarrow> int \<Rightarrow> (string + CommandResult) \<times> bot_state" where
  "handle_delete_me c x s user =
     (case delete_me x (db s) user of
        (Inl err, d) \<Rightarrow> (Inl err, s\<lparr>db := d\<rparr>)
      | (Inr True, d) \<Rightarrow> (Inr (result SUCCESS (SUCCESSFUL c)), s\<lparr>db := d\<rparr>)
      | (Inr False, d) \<Rightarrow> (Inr (result FAILURE (EMPTY_LIST c)), s\<lparr>db := d\<rparr>))"

text \<open>\<^verbatim>\<open>_handle_rename\<close>.\<close>

definition handle_rename ::
  "constants \<Rightarrow> externals \<Rightarrow> bot_state \<Rightarrow> int \<Rightarrow> string list \<Rightarrow> bool
     \<Rightarrow> CommandResult \<times> bot_state" where
  "handle_rename c x s user args overwrite =
     (if length args \<noteq> 3 then (result INVALID_ARGS (WRONG_ARGS_DEL c), s)
      else (case rename_key x (db s) user (args ! 1) (args ! 2) overwrite of
              (Inl err, d) \<Rightarrow> (result FAILURE (''An error occurred: '' @ err), s\<lparr>db := d\<rparr>)
            | (Inr st, d) \<Rightarrow>
                ((if st = 0 then result SUCCESS (SUCCESSFUL c)
                  else if st = - 1 then result FAILURE (EMPTY_LIST c)
                  else if st = - 2 then result FAILURE (KEY_NOT_FOUND c)
                  else if st = - 3
                  then result FAILURE
                         (if \<not> overwrite then KEY_EXISTS_RENAME c else UNSUCCESSFUL c)
                  else result FAILURE (UNSUCCESSFUL c)),
                 s\<lparr>db := d\<rparr>)))"

text \<open>The handlers that hand the replied-to message to a transformation.\<close>

definition handle_text_transform ::
  "externals \<Rightarrow> string \<Rightarrow> reference option \<Rightarrow> CommandResult" where
  "handle_text_transform x command_type reply =
     (case reply of
        None \<Rightarrow> result INVALID_ARGS ''You need to reply to a message to use this command.''
      | Some r \<Rightarrow>
          (case text_transform x command_type r of
             Inl err \<Rightarrow> result FAILURE (''Failed to transform text using '' @ command_type)
           | Inr res \<Rightarrow> \<lparr>status = SUCCESS, message = Some res\<rparr>))"

definition handle_mock :: "externals \<Rightarrow> reference option \<Rightarrow> CommandResult" where
  "handle_mock x reply =
     (case reply of
        None \<Rightarrow> result INVALID_ARGS ''You need to reply to a message to use this command.''
      | Some r \<Rightarrow>
          (case mock x r of
             Inl err \<Rightarrow> result FAILURE ''Failed to mock the message.''
           | Inr res \<Rightarrow> \<lparr>status = SUCCESS, message = Some res\<rparr>))"

definition handle_deepfry :: "externals \<Rightarrow> reference option \<Rightarrow> CommandResult" where
  "handle_deepfry x reply =
     (case reply of
        None \<Rightarrow> result INVALID_ARGS
                  ''You need to reply to a message with an image to use this command.''
      | Some r \<Rightarrow>
          (case deepfry x r of
             Inl err \<Rightarrow> result FAILURE ''Failed to deepfry the image.''
           | Inr res \<Rightarrow> \<lparr>status = SUCCESS, message = Some res\<rparr>))"

text \<open>\<^verbatim>\<open>_handle_steal\<close>.\<close>

definition handle_steal ::
  "constants \<Rightarrow> externals \<Rightarrow> bot_state \<Rightarrow> int \<Rightarrow> string list \<Rightarrow> CommandResult \<times> bot_state" where
  "handle_steal c x s user args =
     (if length args \<noteq> 3 \<and> length args \<noteq> 4 then (result INVALID_ARGS (WRONG_ARGS c), s)
      else
        (let steal_from = args ! 1 in
         if \<not> startswith steal_from ''<@'' \<or> \<not> endswith steal_from ''>''
         then (result INVALID_ARGS (WRONG_USER_ID c), s)
         else (case py_int x (mention_body steal_from) of
                 None \<Rightarrow> (result FAILURE ''Failed to steal the key.'', s)
               | Some steal_from_id \<Rightarrow>
                   (let key_to_steal = args ! 2;
                        new_key = (if length args = 4 then Some (args ! 3) else None)
                    in case steal x (db s) user key_to_steal steal_from_id new_key of
                         (Inl err, d) \<Rightarrow> (result FAILURE ''Failed to steal the key.'', s\<lparr>db := d\<rparr>)
                       | (Inr True, d) \<Rightarrow> (result SUCCESS (SUCCESSFUL c), s\<lparr>db := d\<rparr>)
                       | (Inr False, d) \<Rightarrow> (result FAILURE (KEY_NOT_FOUND c), s\<lparr>db := d\<rparr>)))))"

text \<open>The decorator \<^verbatim>\<open>Permission.requires_admin\<close>.\<close>

definition requires_admin ::
  "constants \<Rightarrow> (bot_state \<Rightarrow> int \<Rightarrow> string list \<Rightarrow> CommandResult \<times> bot_state)
     \<Rightarrow> bot_state \<Rightarrow> int \<Rightarrow> string list \<Rightarrow> CommandResult \<times> bot_state" where
  "requires_admin c func s user args =
     (if \<not> is_admin c user
      then (result NO_PERMISSION
              (''You don'' @ [CHR 0x27] @ ''t have permission to use this command.''), s)
      else func s user args)"

text \<open>\<^verbatim>\<open>_handle_blacklist_add\<close> and \<^verbatim>\<open>_handle_blacklist_remove\<close>, under the decorator.\<close>

definition blacklist_add_body ::
  "constants \<Rightarrow> externals \<Rightarrow> bot_state \<Rightarrow> int \<Rightarrow> string list \<Rightarrow> CommandResult \<times> bot_state" where
  "blacklist_add_body c x s user args =
     (if length args \<noteq> 2 \<or> \<not> startswith (args ! 1) ''<@'' \<or> \<not> endswith (args ! 1) ''>''
      then (result INVALID_ARGS ''Invalid user mention.'', s)
      else (case py_int x (mention_body (args ! 1)) of
              None \<Rightarrow> (result FAILURE ''Failed to add user to blacklist.'', s)
            | Some user_id_to_blacklist \<Rightarrow>
                if user_id_to_blacklist \<in> set (ADMINS c)
                then (result FAILURE ''You cannot blacklist another admin.'', s)
                else if user_id_to_blacklist \<in> set (BLACKLIST s)
                then (result FAILURE ''User is already blacklisted.'', s)
                else (result SUCCESS
                        (''User <@'' @ str_int user_id_to_blacklist @ ''> has been blacklisted.''),
                      s\<lparr>BLACKLIST := BLACKLIST s @ [user_id_to_blacklist]\<rparr>)))"

definition handle_blacklist_add ::
  "constants \<Rightarrow> externals \<Rightarrow> bot_state \<Rightarrow> int \<Rightarrow> string list \<Rightarrow> CommandResult \<times> bot_state" where
  "handle_blacklist_add c x = requires_admin c (blacklist_add_body c x)"

definition blacklist_remove_body ::
  "externals \<Rightarrow> bot_state \<Rightarrow> int \<Rightarrow> string list \<Rightarrow> CommandResult \<times> bot_state" where
  "blacklist_remove_body x s user args =
     (if length args \<noteq> 2 \<or> \<not> startswith (args ! 1) ''<@'' \<or> \<not> endswith (args ! 1) ''>''
      then (result INVALID_ARGS ''Invalid user mention.'', s)
      else (case py_int x (mention_body (args ! 1)) of
              None \<Rightarrow> (result FAILURE ''Failed to remove user from blacklist.'', s)
            | Some user_id_to_remove \<Rightarrow>
                if user_id_to_remove \<notin> set (BLACKLIST s)
                then (result FAILURE ''User is not blacklisted.'', s)
                else (result SUCCESS
                        (''User <@'' @ str_int user_id_to_remove
                           @ ''> has been removed from the blacklist.''),
                      s\<lparr>BLACKLIST := remove1 user_id_to_remove (BLACKLIST s)\<rparr>)))"

definition handle_blacklist_remove ::
  "constants \<Rightarrow> externals \<Rightarrow> bot_state \<Rightarrow> int \<Rightarrow> string list \<Rightarrow> CommandResult \<times> bot_state" where
  "handle_blacklist_remove c x = requires_admin c (blacklist_remove_body x)"

text \<open>\<^verbatim>\<open>_handle_backup\<close>, under the decorator.\<close>

definition backup_body ::
  "env \<Rightarrow> bot_state \<Rightarrow> int \<Rightarrow> string list \<Rightarrow> CommandResult \<times> bot_state" where
  "backup_body e s user args =
     (case create_backup e s of
        (Inl err, s') \<Rightarrow> (result FAILURE ''Failed to create a backup.'', s')
      | (Inr True, s') \<Rightarrow> (result SUCCESS ''Database backup created successfully.'', s')
      | (Inr False, s') \<Rightarrow> (result FAILURE ''Database backup failed.'', s'))"

definition handle_backup ::
  "constants \<Rightarrow> env \<Rightarrow> bot_state \<Rightarrow> int \<Rightarrow> string list \<Rightarrow> CommandResult \<times> bot_state" where
  "handle_backup c e = requires_admin c (backup_body e)"

text \<open>
  The table built by \<^verbatim>\<open>setup_commands\<close>. A handler gets the environment of the
  event, the state, the user, the argument list and the reply context, and returns its
  result or the text of an exception, with the state it leaves.
\<close>

type_synonym handler =
  "env \<Rightarrow> bot_state \<Rightarrow> int \<Rightarrow> string list \<Rightarrow> reference option
     \<Rightarrow> (string + CommandResult) \<times> bot_state"

definition returned :: "CommandResult \<times> bot_state \<Rightarrow> (string + CommandResult) \<times> bot_state" where
  "returned p = (Inr (fst p), snd p)"

definition commands :: "constants \<Rightarrow> externals \<Rightarrow> (string \<times> handler) list" where
  "commands c x =
     [(''add'', \<lambda>e s u a r. returned (handle_add c e s u a r False)),
      (''add_o'', \<lambda>e s u a r. returned (handle_add c e s u a r True)),
      (''saved'', \<lambda>e s u a r. returned (handle_saved c x e s u a, s)),
      (''delete'', \<lambda>e s u a r. returned (handle_delete c e s u a)),
      (''delete_me'', \<lambda>e s u a r. handle_delete_me c x s u),
      (''rename'', \<lambda>e s u a r. returned (handle_rename c x s u a False)),
      (''rename_o'', \<lambda>e s u a r. returned (handle_rename c x s u a True)),
      (''help'', \<lambda>e s u a r. returned (result SUCCESS (HELP_TEXT c), s)),
      (''steal'', \<lambda>e s u a r. returned (handle_steal c x s u a)),
      (''blacklist_add'', \<lambda>e s u a r. returned (handle_blacklist_add c x s u a)),
      (''blacklist_remove'', \<lambda>e s u a r. returned (handle_blacklist_remove c x s u a)),
      (''backup'', \<lambda>e s u a r. returned (handle_backup c e s u a)),
      (''clap'', \<lambda>e s u a r. returned (handle_text_transform x ''clap'' r, s)),
      (''zalgo'', \<lambda>e s u a r. returned (handle_text_transform x ''zalgo'' r, s)),
      (''forbesify'', \<lambda>e s u a r. returned (handle_text_transform x ''forbesify'' r, s)),
      (''copypasta'', \<lambda>e s u a r. returned (handle_text_transform x ''copypasta'' r, s)),
      (''owo'', \<lambda>e s u a r. returned (handle_text_transform x ''owo'' r, s)),
      (''stretch'', \<lambda>e s u a r. returned (handle_text_transform x ''stretch'' r, s)),
      (''mock'', \<lambda>e s u a r. returned (handle_mock x r, s)),
      (''deepfry'', \<lambda>e s u a r. returned (handle_deepfry x r, s))]"

text \<open>
  \<^verbatim>\<open>handle_command\<close>, over any command table: the cooldown check comes first, the
  handler runs on the state the check leaves, and an exception of the handler becomes a
  failure.
\<close>

definition dispatch ::
  "(string \<times> handler) list \<Rightarrow> constants \<Rightarrow> env \<Rightarrow> bot_state \<Rightarrow> int \<Rightarrow> string
     \<Rightarrow> reference option \<Rightarrow> CommandResult option \<times> bot_state" where
  "dispatch table c e s user cmd reply =
     (let cmd' = (if startswith cmd '';;'' then drop 2 cmd else cmd);
          args = py_split cmd'
      in case args of
           [] \<Rightarrow> (None, s)
         | command # rest \<Rightarrow>
             (case map_of table command of
                Some handler \<Rightarrow>
                  (case check_cooldown c e s user command of
                     (False, s1) \<Rightarrow>
                       (Some (result COOLDOWN
                                (''Command '' @ command @ '' is on cooldown. Please wait.'')),
                        s1)
                   | (True, s1) \<Rightarrow>
                       (case handler e s1 user args reply of
                          (Inl err, s2) \<Rightarrow>
                            (Some (result FAILURE (''An error occurred: '' @ err)), s2)
                        | (Inr res, s2) \<Rightarrow> (Some res, s2)))
              | None \<Rightarrow> (Some (result FAILURE ''Unknown command.''), s)))"

definition handle_command ::
  "constants \<Rightarrow> externals \<Rightarrow> env \<Rightarrow> bot_state \<Rightarrow> int \<Rightarrow> string \<Rightarrow> reference option
     \<Rightarrow> CommandResult option \<times> bot_state" where
  "handle_command c x = dispatch (commands c x) c"

section \<open>DiscordBot\<close>

text \<open>
  What an event does to the outside: the replies it sends, in order, and the exception
  that leaves the event handler, if any.
\<close>

type_synonym effects = "outbound list \<times> string option"

text \<open>
  \<^verbatim>\<open>message.reference.resolved if message.reference else message\<close>, as the identifier
  of the message; \<open>None\<close> when the reference is not resolved, where calling
  \<^verbatim>\<open>reply\<close> raises.
\<close>

definition reply_target :: "inbound \<Rightarrow> nat option" where
  "reply_target msg =
     (case msg_reference msg of
        Some r \<Rightarrow> map_option r_id (resolved r)
      | None \<Rightarrow> Some (msg_id msg))"

text \<open>\<^verbatim>\<open>send_response\<close>.\<close>

definition send_response :: "inbound \<Rightarrow> CommandResult \<Rightarrow> effects" where
  "send_response msg response =
     (let reply_to = reply_target msg in
      if status response = SUCCESS \<and> truthy (message response)
      then (case (reply_to, message response) of
              (Some t, Some m) \<Rightarrow> ([Reply t m], None)
            | _ \<Rightarrow> ([], Some ''AttributeError''))
      else if status response \<in> {FAILURE, NO_PERMISSION, INVALID_ARGS}
      then ([Reply (msg_id msg)
               (case message response of
                  Some m \<Rightarrow> (if truthy (Some m) then m else Text ''An error occurred.'')
                | None \<Rightarrow> Text ''An error occurred.'')],
            None)
      else ([], None))"

text \<open>\<^verbatim>\<open>handle_bot_command\<close>.\<close>

definition handle_bot_command ::
  "constants \<Rightarrow> externals \<Rightarrow> env \<Rightarrow> bot_state \<Rightarrow> inbound \<Rightarrow> effects \<times> bot_state" where
  "handle_bot_command c x e s msg =
     (case handle_command c x e s (author msg) (py_strip (content msg)) (msg_reference msg) of
        (Some response, s') \<Rightarrow> (send_response msg response, s')
      | (None, s') \<Rightarrow> (([], None), s'))"

text \<open>\<^verbatim>\<open>handle_replacement\<close>.\<close>

definition handle_replacement :: "env \<Rightarrow> bot_state \<Rightarrow> inbound \<Rightarrow> effects" where
  "handle_replacement e s msg =
     (let parts = split_marker [] (py_strip (content msg)) in
      if length parts < 2 then ([], Some ''IndexError'')
      else (case retrieve_text e s (author msg) (parts ! 1) of
              None \<Rightarrow> ([], None)
            | Some replaced_text \<Rightarrow>
                if replaced_text = [] then ([], None)
                else (case reply_target msg of
                        None \<Rightarrow> ([], Some ''AttributeError'')
                      | Some t \<Rightarrow> ([Reply t (Text replaced_text)], None))))"

text \<open>\<^verbatim>\<open>process_message\<close>.\<close>

definition process_message ::
  "constants \<Rightarrow> externals \<Rightarrow> env \<Rightarrow> bot_state \<Rightarrow> inbound \<Rightarrow> effects \<times> bot_state" where
  "process_message c x e s msg =
     (let content' = py_strip (content msg) in
      if REPLACE c content' then (handle_replacement e s msg, s)
      else if COMMAND c content' then handle_bot_command c x e s msg
      else (([], None), s))"

text \<open>The event listener \<^verbatim>\<open>on_message\<close>.\<close>

definition on_message ::
  "constants \<Rightarrow> externals \<Rightarrow> env \<Rightarrow> bot_state \<Rightarrow> inbound \<Rightarrow> effects \<times> bot_state" where
  "on_message c x e s msg =
     (if author_is_client msg \<or> author_bot msg then (([], None), s)
      else if is_blacklisted s (author msg)
      then ((if startswith (py_strip (content msg)) '';;''
             then [Reply (msg_id msg) (Text ''You are blacklisted from using this bot.'')]
             else [],
             None), s)
      else process_message c x e s msg)"

section \<open>Observations and a concrete configuration\<close>

text \<open>The time stamp recorded in the cooldown table for a command and a user.\<close>

definition last_used :: "bot_state \<Rightarrow> string \<Rightarrow> int \<Rightarrow> real option" where
  "last_used s command user_id =
     (case command_cooldowns s command of None \<Rightarrow> None | Some m \<Rightarrow> m user_id)"

text \<open>The path of the backup file that \<^verbatim>\<open>create_backup\<close> writes.\<close>

definition backup_path :: "env \<Rightarrow> bot_state \<Rightarrow> string" where
  "backup_path e s = ''backups/'' @ db_name s @ ''_backup_'' @ stamp e @ ''.sqlite''"

text \<open>
  One instance of the parameters, on which the theorems below are run: user 1 is the
  administrator, user 13 is blacklisted, user 42 has stored one text and has used
  \<^verbatim>\<open>help\<close> at time 98; the cooldown is 5 seconds and the clock reads 100. The
  identifier of a mention is read as a string of decimal digits.
\<close>

fun decimal_acc :: "nat \<Rightarrow> string \<Rightarrow> nat option" where
  "decimal_acc n [] = Some n"
| "decimal_acc n (ch # cs) =
     (if 48 \<le> (of_char ch :: nat) \<and> (of_char ch :: nat) \<le> 57
      then decimal_acc (10 * n + (of_char ch - 48)) cs
      else None)"

definition decimal :: "string \<Rightarrow> int option" where
  "decimal s = (if s = [] then None else map_option int (decimal_acc 0 s))"

definition example_constants :: constants where
  "example_constants =
     \<lparr>ADMINS = [1], COMMAND_COOLDOWN = 5,
      REPLACE = (\<lambda>s. False), COMMAND = (\<lambda>s. startswith s '';;''),
      KEY_EXISTS_ADD = ''Key already exists'', SUCCESSFUL = ''Done'',
      UNSUCCESSFUL = ''Not done'', EMPTY_MESSAGE = ''Empty message'',
      EMPTY_LIST = ''Nothing saved'', KEY_NOT_FOUND = ''Key not found'',
      KEY_EXISTS_RENAME = ''Target exists'', WRONG_ARGS = ''Wrong arguments'',
      WRONG_ARGS_ADD = ''Usage: add'', WRONG_ARGS_DEL = ''Usage: delete'',
      WRONG_USER_ID = ''Wrong user'', HELP_TEXT = ''Help''\<rparr>"

definition example_externals :: externals where
  "example_externals =
     \<lparr>py_int = decimal,
      delete_me = (\<lambda>d u. (Inr (map_of d u \<noteq> None), AList.delete u d)),
      rename_key = (\<lambda>d u old new ow. (Inr (- 1), d)),
      steal = (\<lambda>d u k from new. (Inr False, d)),
      text_transform = (\<lambda>kind r. Inr (Text kind)),
      mock = (\<lambda>r. Inr (Text ''mock'')),
      deepfry = (\<lambda>r. Inl ''no image'')\<rparr>"

definition example_state :: bot_state where
  "example_state =
     \<lparr>db_name = ''pasta'', db = [(42, [(''greeting'', ''hello'')])],
      last_backup = 0, backup_interval = 86400,
      command_cooldowns = [''help'' \<mapsto> [42 \<mapsto> 98]],
      BLACKLIST = [13], files = Map.empty\<rparr>"

definition example_env :: env where
  "example_env =
     \<lparr>now = 100, stamp = ''20240101_000000'', db_error = None, backup_fault = None,
      mkdir_error = None, unlink_error = None\<rparr>"

definition example_message :: "int \<Rightarrow> string \<Rightarrow> inbound" where
  "example_message user text =
     \<lparr>msg_id = 500, author = user, author_is_client = False, author_bot = False,
      content = text, msg_reference = None\<rparr>"

section \<open>The store\<close>

lemma db_get_update: "db_get (AList.update u v d) u = v"
  by (simp add: db_get_def update_conv')

text \<open>
  C1. For every user and key: when the key is present in the user's record and
  \<open>overwrite\<close> is false, \<^verbatim>\<open>store_text\<close> returns the failure
  \<^verbatim>\<open>KEY_EXISTS_ADD\<close> and leaves the state, hence the stored value, as it was; when
  \<open>overwrite\<close> is true it succeeds and a following \<^verbatim>\<open>retrieve_text\<close> returns the
  new value. The store is assumed to answer (no \<^verbatim>\<open>DatabaseError\<close>).
\<close>

theorem store_text_key_exists_and_overwrite:
  assumes "db_error e = None"
  shows "(map_of (db_get (db s) U) K = Some v \<longrightarrow>
            store_text c e s U K v2 False = (Inr (result FAILURE (KEY_EXISTS_ADD c)), s)
            \<and> retrieve_text e (snd (store_text c e s U K v2 False)) U K = Some v)
       \<and> fst (store_text c e s U K v2 True) = Inr (result SUCCESS (SUCCESSFUL c))
       \<and> retrieve_text e (snd (store_text c e s U K v2 True)) U K = Some v2"
  using assms
  by (simp add: store_text_def retrieve_text_def Let_def db_get_update update_conv')

theorem store_text_key_exists_and_overwrite_witness:
  "db_error example_env = None
   \<and> map_of (db_get (db example_state) 42) ''greeting'' = Some ''hello''
   \<and> store_text example_constants example_env example_state 42 ''greeting'' ''howdy'' False
       = (Inr (result FAILURE (KEY_EXISTS_ADD example_constants)), example_state)
   \<and> retrieve_text example_env
       (snd (store_text example_constants example_env example_state 42 ''greeting'' ''howdy'' False))
       42 ''greeting'' = Some ''hello''
   \<and> retrieve_text example_env
       (snd (store_text example_constants example_env example_state 42 ''greeting'' ''howdy'' True))
       42 ''greeting'' = Some ''howdy''"
proof -
  have h: "db_error example_env = None"
    by (simp add: example_env_def)
  have k: "map_of (db_get (db example_state) 42) ''greeting'' = Some ''hello''"
    by (simp add: example_state_def db_get_def)
  from store_text_key_exists_and_overwrite
    [OF h, where s = example_state and U = 42 and K = "''greeting''"
       and v = "''hello''" and ?v2.0 = "''howdy''" and c = example_constants]
    h k
  show ?thesis by blast
qed

section \<open>The message router\<close>

text \<open>
  C7. For every inbound message whose author is blacklisted, \<^verbatim>\<open>on_message\<close> stops
  before the dispatcher: the state, with its cooldown table, is returned as it was; the
  outcome is the same for every configuration, every set of handlers and every
  environment; and it does not depend on the contents of the cooldown table.
\<close>

theorem blacklisted_author_never_reaches_dispatcher:
  assumes "is_blacklisted s (author msg)"
  shows "snd (on_message c x e s msg) = s
       \<and> on_message c' x' e' s msg = on_message c x e s msg
       \<and> fst (on_message c x e (s\<lparr>command_cooldowns := cds\<rparr>) msg) = fst (on_message c x e s msg)"
  using assms by (simp add: on_message_def is_blacklisted_def)

theorem blacklisted_author_never_reaches_dispatcher_witness:
  "is_blacklisted example_state (author (example_message 13 '';;help''))
   \<and> snd (on_message example_constants example_externals example_env example_state
            (example_message 13 '';;help'')) = example_state
   \<and> last_used (snd (on_message example_constants example_externals example_env example_state
            (example_message 13 '';;help''))) ''help'' 13 = None"
  using blacklisted_author_never_reaches_dispatcher
    [where s = example_state and msg = "example_message 13 '';;help''"
       and c = example_constants and x = example_externals and e = example_env]
  by (simp add: is_blacklisted_def example_state_def example_message_def last_used_def)

text \<open>
  C10. For every inbound message of a blacklisted author that is neither the client nor
  a bot: when the trimmed text starts with \<^verbatim>\<open>;;\<close> exactly one reply is sent, to the
  message itself, with the text \<^verbatim>\<open>You are blacklisted from using this bot.\<close>;
  otherwise nothing is sent. In both cases nothing else happens: no exception, and the
  state is unchanged.
\<close>

theorem blacklisted_author_reply:
  assumes "is_blacklisted s (author msg)" and "\<not> author_is_client msg" and "\<not> author_bot msg"
  shows "on_message c x e s msg =
           ((if startswith (py_strip (content msg)) '';;''
             then [Reply (msg_id msg) (Text ''You are blacklisted from using this bot.'')]
             else [],
             None), s)"
  using assms by (simp add: on_message_def)

theorem blacklisted_author_reply_witness:
  "is_blacklisted example_state (author (example_message 13 '' ;;add k v''))
   \<and> \<not> author_is_client (example_message 13 '' ;;add k v'')
   \<and> \<not> author_bot (example_message 13 '' ;;add k v'')
   \<and> on_message example_constants example_externals example_env example_state
        (example_message 13 '' ;;add k v'')
       = (([Reply 500 (Text ''You are blacklisted from using this bot.'')], None), example_state)"
  using blacklisted_author_reply
    [where s = example_state and msg = "example_message 13 '' ;;add k v''"
       and c = example_constants and x = example_externals and e = example_env]
  by (simp add: is_blacklisted_def example_state_def example_message_def startswith_def
      py_strip_def isspace_def)

section \<open>Sending the response\<close>

text \<open>
  C9. A result with status \<^verbatim>\<open>COOLDOWN\<close> is answered with no reply at all:
  \<^verbatim>\<open>send_response\<close> replies only to \<^verbatim>\<open>SUCCESS\<close> with a non-empty message, and to
  \<^verbatim>\<open>FAILURE\<close>, \<^verbatim>\<open>NO_PERMISSION\<close> and \<^verbatim>\<open>INVALID_ARGS\<close>; so when the dispatcher
  returns a cooldown result, \<^verbatim>\<open>handle_bot_command\<close> sends nothing, although the
  result carries a message.
\<close>

theorem cooldown_result_sends_no_reply:
  "(status response = COOLDOWN \<longrightarrow> send_response msg response = ([], None))
   \<and> (fst (send_response msg response) \<noteq> [] \<longrightarrow>
        status response = SUCCESS \<and> truthy (message response)
        \<or> status response \<in> {FAILURE, NO_PERMISSION, INVALID_ARGS})
   \<and> (handle_command c x e s (author msg) (py_strip (content msg)) (msg_reference msg)
         = (Some response, s') \<and> status response = COOLDOWN \<longrightarrow>
        handle_bot_command c x e s msg = (([], None), s'))"
  by (auto simp: send_response_def handle_bot_command_def Let_def
      split: option.splits prod.splits)

lemma example_help_on_cooldown:
  "handle_command example_constants example_externals example_env example_state 42 '';;help'' None
     = (Some (result COOLDOWN ''Command help is on cooldown. Please wait.''), example_state)"
  by (simp add: handle_command_def dispatch_def commands_def startswith_def py_split_def
      isspace_def check_cooldown_def example_constants_def example_env_def example_state_def
      Let_def)

theorem cooldown_result_sends_no_reply_witness:
  "status (result COOLDOWN ''Command help is on cooldown. Please wait.'') = COOLDOWN
   \<and> message (result COOLDOWN ''Command help is on cooldown. Please wait.'')
       = Some (Text ''Command help is on cooldown. Please wait.'')
   \<and> handle_bot_command example_constants example_externals example_env example_state
        (example_message 42 '' ;;help'') = (([], None), example_state)"
proof -
  have strip: "py_strip (content (example_message 42 '' ;;help'')) = '';;help''"
    by (simp add: example_message_def py_strip_def isspace_def)
  have "handle_command example_constants example_externals example_env example_state
          (author (example_message 42 '' ;;help''))
          (py_strip (content (example_message 42 '' ;;help'')))
          (msg_reference (example_message 42 '' ;;help''))
        = (Some (result COOLDOWN ''Command help is on cooldown. Please wait.''), example_state)"
    using example_help_on_cooldown by (simp add: strip) (simp add: example_message_def)
  with cooldown_result_sends_no_reply
    [where response = "result COOLDOWN ''Command help is on cooldown. Please wait.''"
       and msg = "example_message 42 '' ;;help''" and c = example_constants
       and x = example_externals and e = example_env and s = example_state
       and s' = example_state]
  show ?thesis by (simp add: result_def)
qed

section \<open>The blacklist\<close>

lemma blacklist_add_keeps_disjoint:
  "set (ADMINS c) \<inter> set (BLACKLIST s) = {} \<Longrightarrow>
   set (ADMINS c) \<inter> set (BLACKLIST (snd (handle_blacklist_add c x s user args))) = {}"
  by (auto simp: handle_blacklist_add_def requires_admin_def blacklist_add_body_def
      split: option.splits)

lemma blacklist_remove_keeps_disjoint:
  "set (ADMINS c) \<inter> set (BLACKLIST s) = {} \<Longrightarrow>
   set (ADMINS c) \<inter> set (BLACKLIST (snd (handle_blacklist_remove c x s user args))) = {}"
proof -
  have "set (remove1 t (BLACKLIST s)) \<subseteq> set (BLACKLIST s)" for t
    by (rule set_remove1_subset)
  then show "set (ADMINS c) \<inter> set (BLACKLIST s) = {} \<Longrightarrow>
   set (ADMINS c) \<inter> set (BLACKLIST (snd (handle_blacklist_remove c x s user args))) = {}"
    by (auto simp: handle_blacklist_remove_def requires_admin_def blacklist_remove_body_def
        split: option.splits)
qed

text \<open>
  C6. The blacklist command on the mention of an administrator fails and leaves the
  state, with the blacklist, as it was (for an administrator who calls it the failure is
  \<^verbatim>\<open>You cannot blacklist another admin.\<close>); and from every state in which no
  identifier is both an administrator and blacklisted, \<^verbatim>\<open>blacklist_add\<close> and
  \<^verbatim>\<open>blacklist_remove\<close> lead to such a state, whatever their arguments.
\<close>

theorem admins_and_blacklist_stay_disjoint:
  "(args = [a0, m] \<and> startswith m ''<@'' \<and> endswith m ''>''
      \<and> py_int x (mention_body m) = Some t \<and> t \<in> set (ADMINS c) \<longrightarrow>
      snd (handle_blacklist_add c x s user args) = s
      \<and> status (fst (handle_blacklist_add c x s user args)) \<noteq> SUCCESS
      \<and> (is_admin c user \<longrightarrow>
           handle_blacklist_add c x s user args
             = (result FAILURE ''You cannot blacklist another admin.'', s)))
   \<and> (set (ADMINS c) \<inter> set (BLACKLIST s) = {} \<longrightarrow>
        set (ADMINS c) \<inter> set (BLACKLIST (snd (handle_blacklist_add c x s user args))) = {}
        \<and> set (ADMINS c) \<inter> set (BLACKLIST (snd (handle_blacklist_remove c x s user args))) = {})"
proof -
  have "snd (handle_blacklist_add c x s user args) = s
      \<and> status (fst (handle_blacklist_add c x s user args)) \<noteq> SUCCESS
      \<and> (is_admin c user \<longrightarrow>
           handle_blacklist_add c x s user args
             = (result FAILURE ''You cannot blacklist another admin.'', s))"
    if "args = [a0, m]" "startswith m ''<@''" "endswith m ''>''"
      "py_int x (mention_body m) = Some t" "t \<in> set (ADMINS c)"
    using that
    by (simp add: handle_blacklist_add_def requires_admin_def blacklist_add_body_def result_def)
  then show ?thesis
    using blacklist_add_keeps_disjoint[of c s x user args]
      blacklist_remove_keeps_disjoint[of c s x user args]
    by blast
qed

theorem admins_and_blacklist_stay_disjoint_witness:
  "py_int example_externals (mention_body ''<@1>'') = Some 1
   \<and> 1 \<in> set (ADMINS example_constants)
   \<and> set (ADMINS example_constants) \<inter> set (BLACKLIST example_state) = {}
   \<and> handle_blacklist_add example_constants example_externals example_state 1
        [''blacklist_add'', ''<@1>'']
       = (result FAILURE ''You cannot blacklist another admin.'', example_state)
   \<and> set (ADMINS example_constants)
        \<inter> set (BLACKLIST (snd (handle_blacklist_add example_constants example_externals
              example_state 1 [''blacklist_add'', ''<@1>'']))) = {}
   \<and> set (ADMINS example_constants)
        \<inter> set (BLACKLIST (snd (handle_blacklist_remove example_constants example_externals
              example_state 1 [''blacklist_add'', ''<@1>'']))) = {}"
proof -
  have p: "py_int example_externals (mention_body ''<@1>'') = Some 1"
    by (simp add: example_externals_def mention_body_def decimal_def)
  have a: "1 \<in> set (ADMINS example_constants)" "is_admin example_constants 1"
    by (simp_all add: example_constants_def is_admin_def)
  have d: "set (ADMINS example_constants) \<inter> set (BLACKLIST example_state) = {}"
    by (simp add: example_constants_def example_state_def)
  have m: "startswith ''<@1>'' ''<@''" "endswith ''<@1>'' ''>''"
    by (simp_all add: startswith_def endswith_def)
  from admins_and_blacklist_stay_disjoint
    [where args = "[''blacklist_add'', ''<@1>'']" and ?a0.0 = "''blacklist_add''"
       and m = "''<@1>''" and x = example_externals and t = 1 and c = example_constants
       and s = example_state and user = 1]
    p a d m
  show ?thesis by blast
qed

section \<open>Backups\<close>


lemma copy_keys_no_fault:
  "\<exists>b'. copy_keys None live b = (True, None, b')"
  by (induction live arbitrary: b) (auto simp: spend_def)


lemma snapshot_write_succeeds:
  "db_error e = None \<Longrightarrow> backup_fault e = None \<Longrightarrow> fst (snapshot_write e live p fs)"
  using copy_keys_no_fault[of live "case fs p of None \<Rightarrow> [] | Some old \<Rightarrow> old"]
  by (auto simp: snapshot_write_def Let_def spend_def)




text \<open>
  When the backup directory can be made and the file can be removed,
  \<^verbatim>\<open>create_backup\<close> returns.
\<close>

lemma create_backup_returns:
  "mkdir_error e = None \<Longrightarrow> unlink_error e = None \<Longrightarrow>
   \<exists>b s'. create_backup e s = (Inr b, s')"
  by (auto simp: create_backup_def Let_def split: prod.splits bool.splits)

text \<open>
  C3. The claim is that \<^verbatim>\<open>_periodic_backup\<close> moves \<open>last_backup\<close> only when the
  snapshot write succeeds. The method does not look at the result of
  \<^verbatim>\<open>create_backup\<close>. On the example the last backup is at time 0, the interval is
  one day, the clock reads 86400 and the first write to the backup file raises:
  \<^verbatim>\<open>create_backup\<close> returns \<^verbatim>\<open>False\<close>, yet \<open>last_backup\<close> becomes 86400, and
  the check one second later, with no fault, does nothing.
\<close>

theorem periodic_backup_failed_write_moves_last_backup:
  "fst (create_backup (example_env\<lparr>now := 86400, backup_fault := Some 1\<rparr>) example_state)
     = Inr False
   \<and> last_backup example_state = 0
   \<and> periodic_backup (example_env\<lparr>now := 86400, backup_fault := Some 1\<rparr>) example_state
     = (Inr (), example_state\<lparr>last_backup := 86400\<rparr>)
   \<and> periodic_backup (example_env\<lparr>now := 86401\<rparr>) (example_state\<lparr>last_backup := 86400\<rparr>)
     = (Inr (), example_state\<lparr>last_backup := 86400\<rparr>)"
  by (simp add: periodic_backup_def create_backup_def snapshot_write_def spend_def Let_def
      example_env_def example_state_def)

text \<open>
  C3, amended. In the periodic backup path \<open>last_backup\<close> is set to the current time
  whenever the interval has elapsed and \<^verbatim>\<open>create_backup\<close> returns, whether the
  snapshot write succeeded or failed. It keeps its value, with the rest of the state,
  when the interval has not elapsed, and when making the backup directory raises, in
  which case the exception leaves the method.
\<close>

theorem periodic_backup_moves_last_backup_after_any_attempt:
  "(backup_interval s \<le> now e - last_backup s \<and> fst (create_backup e s) = Inr b \<longrightarrow>
      fst (periodic_backup e s) = Inr ()
      \<and> last_backup (snd (periodic_backup e s)) = now e)
   \<and> (now e - last_backup s < backup_interval s \<longrightarrow> periodic_backup e s = (Inr (), s))
   \<and> (backup_interval s \<le> now e - last_backup s \<and> mkdir_error e = Some err \<longrightarrow>
        periodic_backup e s = (Inl err, s))"
proof -
  have "fst (periodic_backup e s) = Inr () \<and> last_backup (snd (periodic_backup e s)) = now e"
    if "backup_interval s \<le> now e - last_backup s" and "fst (create_backup e s) = Inr b"
  proof -
    from that(2) obtain s' where "create_backup e s = (Inr b, s')"
      by (cases "create_backup e s") simp
    with that(1) show ?thesis
      by (simp add: periodic_backup_def Let_def)
  qed
  moreover have "periodic_backup e s = (Inr (), s)"
    if "now e - last_backup s < backup_interval s"
    using that by (simp add: periodic_backup_def Let_def)
  moreover have "periodic_backup e s = (Inl err, s)"
    if "backup_interval s \<le> now e - last_backup s" and "mkdir_error e = Some err"
    using that by (simp add: periodic_backup_def create_backup_def Let_def)
  ultimately show ?thesis by blast
qed

theorem periodic_backup_moves_last_backup_after_any_attempt_witness:
  "backup_interval example_state
     \<le> now (example_env\<lparr>now := 86400, backup_fault := Some 1\<rparr>) - last_backup example_state
   \<and> fst (create_backup (example_env\<lparr>now := 86400, backup_fault := Some 1\<rparr>) example_state)
       = Inr False
   \<and> last_backup (snd (periodic_backup (example_env\<lparr>now := 86400, backup_fault := Some 1\<rparr>)
         example_state)) = 86400
   \<and> now example_env - last_backup example_state < backup_interval example_state
   \<and> periodic_backup example_env example_state = (Inr (), example_state)
   \<and> periodic_backup (example_env\<lparr>now := 86400, mkdir_error := Some ''denied''\<rparr>) example_state
       = (Inl ''denied'', example_state)"
proof -
  let ?e = "example_env\<lparr>now := 86400, backup_fault := Some 1\<rparr>"
  let ?d = "example_env\<lparr>now := 86400, mkdir_error := Some ''denied''\<rparr>"
  have i: "backup_interval example_state \<le> now ?e - last_backup example_state"
    and n: "now ?e = 86400"
    by (simp_all add: example_env_def example_state_def)
  have f: "fst (create_backup ?e example_state) = Inr False"
    by (simp add: create_backup_def snapshot_write_def spend_def Let_def example_env_def
        example_state_def)
  have early: "now example_env - last_backup example_state < backup_interval example_state"
    by (simp add: example_env_def example_state_def)
  have j: "backup_interval example_state \<le> now ?d - last_backup example_state"
    and k: "mkdir_error ?d = Some ''denied''"
    by (simp_all add: example_env_def example_state_def)
  from periodic_backup_moves_last_backup_after_any_attempt
    [where s = example_state and e = ?e and b = False] i f
  have "last_backup (snd (periodic_backup ?e example_state)) = now ?e"
    by blast
  with n have a: "last_backup (snd (periodic_backup ?e example_state)) = 86400"
    by simp
  from periodic_backup_moves_last_backup_after_any_attempt
    [where s = example_state and e = example_env] early
  have b: "periodic_backup example_env example_state = (Inr (), example_state)"
    by blast
  from periodic_backup_moves_last_backup_after_any_attempt
    [where s = example_state and e = ?d and err = "''denied''"] j k
  have c: "periodic_backup ?d example_state = (Inl ''denied'', example_state)"
    by blast
  from i f a early b c show ?thesis
    by blast
qed

section \<open>The cooldown gate\<close>

lemma check_cooldown_cases:
  "check_cooldown c e s u cmd =
     (let recorded = s\<lparr>command_cooldowns := (command_cooldowns s)
            (cmd \<mapsto> (case command_cooldowns s cmd of None \<Rightarrow> Map.empty | Some m \<Rightarrow> m)
                      (u \<mapsto> now e))\<rparr>
      in case last_used s cmd u of
           Some t \<Rightarrow> if now e - t < COMMAND_COOLDOWN c then (False, s) else (True, recorded)
         | None \<Rightarrow> (True, recorded))"
  by (auto simp: check_cooldown_def last_used_def Let_def split: option.splits)

lemma check_cooldown_accept:
  "check_cooldown c e s u cmd = (True, s1) \<Longrightarrow> last_used s1 cmd u = Some (now e)"
  by (auto simp: check_cooldown_cases last_used_def Let_def split: option.splits if_splits)

lemma check_cooldown_elapsed:
  "last_used s cmd u = Some t \<Longrightarrow> COMMAND_COOLDOWN c \<le> now e - t \<Longrightarrow>
   fst (check_cooldown c e s u cmd)"
  by (simp add: check_cooldown_cases Let_def)

lemma check_cooldown_within:
  "last_used s cmd u = Some t \<Longrightarrow> now e - t < COMMAND_COOLDOWN c \<Longrightarrow>
   check_cooldown c e s u cmd = (False, s)"
  by (simp add: check_cooldown_cases Let_def)

text \<open>No handler of the table touches the cooldown table.\<close>

lemma store_text_cooldowns:
  "command_cooldowns (snd (store_text c e s u k v ow)) = command_cooldowns s"
  by (simp add: store_text_def Let_def split: option.splits)

lemma handle_add_cooldowns:
  "command_cooldowns (snd (handle_add c e s u a r ow)) = command_cooldowns s"
proof -
  have *: "command_cooldowns (snd (case store_text c e s u k v ow of
              (Inl err, s') \<Rightarrow> (result FAILURE ''Failed to add text'', s')
            | (Inr res, s') \<Rightarrow> (res, s'))) = command_cooldowns s" for k v
    using store_text_cooldowns[of c e s u k v ow]
    by (cases "store_text c e s u k v ow") (auto split: sum.splits)
  show ?thesis
    by (simp add: handle_add_def Let_def * split: option.splits)
qed

lemma delete_key_cooldowns:
  "command_cooldowns (snd (delete_key e s u k)) = command_cooldowns s"
  by (simp add: delete_key_def Let_def split: option.splits)

lemma handle_delete_cooldowns:
  "command_cooldowns (snd (handle_delete c e s u a)) = command_cooldowns s"
  using delete_key_cooldowns[of e s u "a ! Suc 0"]
  by (cases "delete_key e s u (a ! Suc 0)") (auto simp: handle_delete_def split: bool.splits)

lemma handle_delete_me_cooldowns:
  "command_cooldowns (snd (handle_delete_me c x s u)) = command_cooldowns s"
  by (auto simp: handle_delete_me_def split: prod.splits sum.splits bool.splits)

lemma handle_rename_cooldowns:
  "command_cooldowns (snd (handle_rename c x s u a ow)) = command_cooldowns s"
  by (auto simp: handle_rename_def split: prod.splits sum.splits)

lemma handle_steal_cooldowns:
  "command_cooldowns (snd (handle_steal c x s u a)) = command_cooldowns s"
  by (auto simp: handle_steal_def Let_def
      split: prod.splits sum.splits bool.splits option.splits)

lemma requires_admin_cooldowns:
  "(\<And>s u a. command_cooldowns (snd (f s u a)) = command_cooldowns s) \<Longrightarrow>
   command_cooldowns (snd (requires_admin c f s u a)) = command_cooldowns s"
  by (simp add: requires_admin_def)

lemma handle_blacklist_add_cooldowns:
  "command_cooldowns (snd (handle_blacklist_add c x s u a)) = command_cooldowns s"
  unfolding handle_blacklist_add_def
  by (rule requires_admin_cooldowns) (simp add: blacklist_add_body_def split: option.splits)

lemma handle_blacklist_remove_cooldowns:
  "command_cooldowns (snd (handle_blacklist_remove c x s u a)) = command_cooldowns s"
  unfolding handle_blacklist_remove_def
  by (rule requires_admin_cooldowns) (simp add: blacklist_remove_body_def split: option.splits)

lemma create_backup_cooldowns:
  "command_cooldowns (snd (create_backup e s)) = command_cooldowns s"
  by (auto simp: create_backup_def Let_def split: option.splits prod.splits bool.splits)

lemma handle_backup_cooldowns:
  "command_cooldowns (snd (handle_backup c e s u a)) = command_cooldowns s"
  unfolding handle_backup_def
proof (rule requires_admin_cooldowns)
  fix s u a
  show "command_cooldowns (snd (backup_body e s u a)) = command_cooldowns s"
    using create_backup_cooldowns[of e s]
    by (cases "create_backup e s") (auto simp: backup_body_def split: sum.splits bool.splits)
qed

lemmas handler_cooldowns =
  handle_add_cooldowns handle_delete_cooldowns handle_delete_me_cooldowns
  handle_rename_cooldowns handle_steal_cooldowns handle_blacklist_add_cooldowns
  handle_blacklist_remove_cooldowns handle_backup_cooldowns

lemma commands_cooldowns:
  "map_of (commands c x) command = Some h \<Longrightarrow>
   command_cooldowns (snd (h e s u a r)) = command_cooldowns s"
  by (auto simp: commands_def returned_def handler_cooldowns split: if_splits)

text \<open>The dispatcher on a known command.\<close>

lemma handle_command_known:
  assumes "py_split (if startswith cmd '';;'' then drop 2 cmd else cmd) = command # rest"
    and "map_of (commands c x) command = Some h"
  shows "handle_command c x e s user cmd reply =
     (case check_cooldown c e s user command of
        (False, s1) \<Rightarrow>
          (Some (result COOLDOWN (''Command '' @ command @ '' is on cooldown. Please wait.'')),
           s1)
      | (True, s1) \<Rightarrow>
          (case h e s1 user (command # rest) reply of
             (Inl err, s2) \<Rightarrow> (Some (result FAILURE (''An error occurred: '' @ err)), s2)
           | (Inr res, s2) \<Rightarrow> (Some res, s2)))"
  using assms
  by (cases "startswith cmd '';;''")
    (simp_all add: handle_command_def dispatch_def Let_def split: prod.splits bool.splits)

lemma handle_command_accepted:
  assumes "py_split (if startswith cmd '';;'' then drop 2 cmd else cmd) = command # rest"
    and "map_of (commands c x) command = Some h"
    and "check_cooldown c e s user command = (True, s1)"
  shows "handle_command c x e s user cmd reply =
           (case h e s1 user (command # rest) reply of
              (Inl err, s2) \<Rightarrow> (Some (result FAILURE (''An error occurred: '' @ err)), s2)
            | (Inr res, s2) \<Rightarrow> (Some res, s2))"
    and "command_cooldowns (snd (handle_command c x e s user cmd reply)) = command_cooldowns s1"
proof -
  show b: "handle_command c x e s user cmd reply =
           (case h e s1 user (command # rest) reply of
              (Inl err, s2) \<Rightarrow> (Some (result FAILURE (''An error occurred: '' @ err)), s2)
            | (Inr res, s2) \<Rightarrow> (Some res, s2))"
    by (simp add: handle_command_known[OF assms(1,2)] assms(3))
  show "command_cooldowns (snd (handle_command c x e s user cmd reply)) = command_cooldowns s1"
    using commands_cooldowns[OF assms(2), of e s1 user "command # rest" reply]
    by (cases "h e s1 user (command # rest) reply") (auto simp: b split: sum.splits)
qed

lemma handle_command_rejected:
  assumes "py_split (if startswith cmd '';;'' then drop 2 cmd else cmd) = command # rest"
    and "map_of (commands c x) command = Some h"
    and "check_cooldown c e s user command = (False, s1)"
  shows "handle_command c x e s user cmd reply =
           (Some (result COOLDOWN (''Command '' @ command @ '' is on cooldown. Please wait.'')),
            s1)"
  by (simp add: handle_command_known[OF assms(1,2)] assms(3))

text \<open>
  C4. For every known command whose cooldown check passes, the time stamp of the
  command and the user is recorded in the state on which the handler runs, and it is
  still the current time in the state the dispatcher returns, whatever the handler
  returns or raises.
\<close>

theorem cooldown_recorded_before_handler:
  assumes "py_split (if startswith cmd '';;'' then drop 2 cmd else cmd) = command # rest"
    and "map_of (commands c x) command = Some h"
    and "check_cooldown c e s user command = (True, s1)"
  shows "last_used s1 command user = Some (now e)
       \<and> handle_command c x e s user cmd reply =
           (case h e s1 user (command # rest) reply of
              (Inl err, s2) \<Rightarrow> (Some (result FAILURE (''An error occurred: '' @ err)), s2)
            | (Inr res, s2) \<Rightarrow> (Some res, s2))
       \<and> last_used (snd (handle_command c x e s user cmd reply)) command user = Some (now e)"
proof -
  have a: "last_used s1 command user = Some (now e)"
    by (rule check_cooldown_accept[OF assms(3)])
  moreover from handle_command_accepted(2)[OF assms, of reply] a
  have "last_used (snd (handle_command c x e s user cmd reply)) command user = Some (now e)"
    by (simp add: last_used_def)
  ultimately show ?thesis
    using handle_command_accepted(1)[OF assms, of reply] by blast
qed

lemma example_help_handler:
  "map_of (commands example_constants example_externals) ''help''
     = Some (\<lambda>e s u a r. returned (result SUCCESS (HELP_TEXT example_constants), s))"
  by (simp add: commands_def)

lemma example_help_tokens:
  "py_split (if startswith '';;help'' '';;'' then drop 2 '';;help'' else '';;help'')
     = ''help'' # []"
  by (simp add: startswith_def py_split_def isspace_def)

theorem cooldown_recorded_before_handler_witness:
  "check_cooldown example_constants example_env example_state 7 ''help''
     = (True, example_state\<lparr>command_cooldowns := [''help'' \<mapsto> [42 \<mapsto> 98, 7 \<mapsto> 100]]\<rparr>)
   \<and> handle_command example_constants example_externals example_env example_state 7
        '';;help'' None
     = (Some (result SUCCESS ''Help''),
        example_state\<lparr>command_cooldowns := [''help'' \<mapsto> [42 \<mapsto> 98, 7 \<mapsto> 100]]\<rparr>)
   \<and> last_used (snd (handle_command example_constants example_externals example_env
         example_state 7 '';;help'' None)) ''help'' 7 = Some 100"
proof -
  let ?s1 = "example_state\<lparr>command_cooldowns := [''help'' \<mapsto> [42 \<mapsto> 98, 7 \<mapsto> 100]]\<rparr>"
  have g: "check_cooldown example_constants example_env example_state 7 ''help'' = (True, ?s1)"
    by (simp add: check_cooldown_def example_constants_def example_env_def example_state_def
        Let_def)
  have n: "now example_env = 100"
    by (simp add: example_env_def)
  have t: "HELP_TEXT example_constants = ''Help''"
    by (simp add: example_constants_def)
  from cooldown_recorded_before_handler
    [OF example_help_tokens example_help_handler g, of None]
  show ?thesis
    by (simp add: g n t returned_def)
qed

text \<open>
  C5. Take a known command and an invocation of it by a user that passes the cooldown
  check at time \<open>now e0\<close>. A second invocation of the command by the user at a time
  less than \<^verbatim>\<open>COMMAND_COOLDOWN\<close> later returns the cooldown result and leaves the
  state, with the recorded time stamp, as it was. An invocation once the interval has
  elapsed passes the check, runs the handler on the state with the new time stamp, and
  returns with the new time stamp recorded.
\<close>

theorem cooldown_rejects_within_interval_and_accepts_after:
  assumes "py_split (if startswith cmd '';;'' then drop 2 cmd else cmd) = command # rest"
    and "py_split (if startswith cmd2 '';;'' then drop 2 cmd2 else cmd2) = command # rest2"
    and "map_of (commands c x) command = Some h"
    and "check_cooldown c e0 s user command = (True, s1)"
    and "handle_command c x e0 s user cmd reply = (r0, s')"
  shows "last_used s' command user = Some (now e0)
       \<and> (now e1 - now e0 < COMMAND_COOLDOWN c \<longrightarrow>
            handle_command c x e1 s' user cmd2 reply2 =
              (Some (result COOLDOWN
                       (''Command '' @ command @ '' is on cooldown. Please wait.'')), s')
            \<and> last_used (snd (handle_command c x e1 s' user cmd2 reply2)) command user
                = Some (now e0))
       \<and> (COMMAND_COOLDOWN c \<le> now e1 - now e0 \<longrightarrow>
            fst (check_cooldown c e1 s' user command)
            \<and> last_used (snd (check_cooldown c e1 s' user command)) command user
                = Some (now e1)
            \<and> handle_command c x e1 s' user cmd2 reply2 =
                (case h e1 (snd (check_cooldown c e1 s' user command)) user (command # rest2)
                        reply2 of
                   (Inl err, s2) \<Rightarrow> (Some (result FAILURE (''An error occurred: '' @ err)), s2)
                 | (Inr res, s2) \<Rightarrow> (Some res, s2))
            \<and> last_used (snd (handle_command c x e1 s' user cmd2 reply2)) command user
                = Some (now e1))"
proof -
  have first: "last_used s' command user = Some (now e0)"
    using handle_command_accepted(2)[OF assms(1,3,4), of reply]
      check_cooldown_accept[OF assms(4)] assms(5)
    by (simp add: last_used_def)
  have within: "handle_command c x e1 s' user cmd2 reply2 =
              (Some (result COOLDOWN
                       (''Command '' @ command @ '' is on cooldown. Please wait.'')), s')
            \<and> last_used (snd (handle_command c x e1 s' user cmd2 reply2)) command user
                = Some (now e0)"
    if "now e1 - now e0 < COMMAND_COOLDOWN c"
    using handle_command_rejected[OF assms(2,3) check_cooldown_within[OF first that], of reply2]
      first
    by simp
  have elapsed: "fst (check_cooldown c e1 s' user command)
            \<and> last_used (snd (check_cooldown c e1 s' user command)) command user
                = Some (now e1)
            \<and> handle_command c x e1 s' user cmd2 reply2 =
                (case h e1 (snd (check_cooldown c e1 s' user command)) user (command # rest2)
                        reply2 of
                   (Inl err, s2) \<Rightarrow> (Some (result FAILURE (''An error occurred: '' @ err)), s2)
                 | (Inr res, s2) \<Rightarrow> (Some res, s2))
            \<and> last_used (snd (handle_command c x e1 s' user cmd2 reply2)) command user
                = Some (now e1)"
    if "COMMAND_COOLDOWN c \<le> now e1 - now e0"
  proof -
    have p: "fst (check_cooldown c e1 s' user command)"
      by (rule check_cooldown_elapsed[OF first that])
    then have g: "check_cooldown c e1 s' user command
                    = (True, snd (check_cooldown c e1 s' user command))"
      by (cases "check_cooldown c e1 s' user command") simp
    have r: "last_used (snd (check_cooldown c e1 s' user command)) command user = Some (now e1)"
      by (rule check_cooldown_accept[OF g])
    with handle_command_accepted(2)[OF assms(2,3) g, of reply2]
    have "last_used (snd (handle_command c x e1 s' user cmd2 reply2)) command user
            = Some (now e1)"
      by (simp add: last_used_def)
    with p r handle_command_accepted(1)[OF assms(2,3) g, of reply2] show ?thesis
      by blast
  qed
  from first within elapsed show ?thesis
    by blast
qed

theorem cooldown_rejects_within_interval_and_accepts_after_witness:
  "handle_command example_constants example_externals example_env example_state 7
      '';;help'' None
     = (Some (result SUCCESS ''Help''),
        example_state\<lparr>command_cooldowns := [''help'' \<mapsto> [42 \<mapsto> 98, 7 \<mapsto> 100]]\<rparr>)
   \<and> now (example_env\<lparr>now := 102\<rparr>) - now example_env < COMMAND_COOLDOWN example_constants
   \<and> handle_command example_constants example_externals (example_env\<lparr>now := 102\<rparr>)
        (example_state\<lparr>command_cooldowns := [''help'' \<mapsto> [42 \<mapsto> 98, 7 \<mapsto> 100]]\<rparr>) 7
        '';;help'' None
     = (Some (result COOLDOWN ''Command help is on cooldown. Please wait.''),
        example_state\<lparr>command_cooldowns := [''help'' \<mapsto> [42 \<mapsto> 98, 7 \<mapsto> 100]]\<rparr>)
   \<and> COMMAND_COOLDOWN example_constants \<le> now (example_env\<lparr>now := 105\<rparr>) - now example_env
   \<and> last_used (snd (handle_command example_constants example_externals
         (example_env\<lparr>now := 105\<rparr>)
         (example_state\<lparr>command_cooldowns := [''help'' \<mapsto> [42 \<mapsto> 98, 7 \<mapsto> 100]]\<rparr>) 7
         '';;help'' None)) ''help'' 7 = Some 105"
proof -
  let ?s1 = "example_state\<lparr>command_cooldowns := [''help'' \<mapsto> [42 \<mapsto> 98, 7 \<mapsto> 100]]\<rparr>"
  have g: "check_cooldown example_constants example_env example_state 7 ''help'' = (True, ?s1)"
    by (simp add: check_cooldown_def example_constants_def example_env_def example_state_def
        Let_def)
  have t: "HELP_TEXT example_constants = ''Help''"
    by (simp add: example_constants_def)
  have f: "handle_command example_constants example_externals example_env example_state 7
             '';;help'' None = (Some (result SUCCESS ''Help''), ?s1)"
    by (simp add: handle_command_known[OF example_help_tokens example_help_handler] g
        returned_def t)
  have w: "now (example_env\<lparr>now := 102\<rparr>) - now example_env < COMMAND_COOLDOWN example_constants"
    by (simp add: example_env_def example_constants_def)
  have a: "COMMAND_COOLDOWN example_constants \<le> now (example_env\<lparr>now := 105\<rparr>) - now example_env"
    by (simp add: example_env_def example_constants_def)
  have n: "now (example_env\<lparr>now := 105\<rparr>) = 105"
    by simp
  note both = cooldown_rejects_within_interval_and_accepts_after
    [OF example_help_tokens example_help_tokens example_help_handler g f]
  from both[of "example_env\<lparr>now := 102\<rparr>" None] w
  have "handle_command example_constants example_externals (example_env\<lparr>now := 102\<rparr>)
        ?s1 7 '';;help'' None
     = (Some (result COOLDOWN (''Command '' @ ''help'' @ '' is on cooldown. Please wait.'')), ?s1)"
    by blast
  then
  have second: "handle_command example_constants example_externals (example_env\<lparr>now := 102\<rparr>)
        ?s1 7 '';;help'' None
     = (Some (result COOLDOWN ''Command help is on cooldown. Please wait.''), ?s1)"
    by simp
  from both[of "example_env\<lparr>now := 105\<rparr>" None] a
  have "last_used (snd (handle_command example_constants example_externals
         (example_env\<lparr>now := 105\<rparr>) ?s1 7 '';;help'' None)) ''help'' 7
          = Some (now (example_env\<lparr>now := 105\<rparr>))"
    by blast
  with n
  have third: "last_used (snd (handle_command example_constants example_externals
         (example_env\<lparr>now := 105\<rparr>) ?s1 7 '';;help'' None)) ''help'' 7 = Some 105"
    by simp
  from f w second a third show ?thesis
    by blast
qed

section \<open>Empty values\<close>

text \<open>Tokens of \<^verbatim>\<open>split()\<close> are non-empty and free of whitespace.\<close>

lemma split_acc_tokens:
  "\<forall>ch \<in> set cur. \<not> isspace ch \<Longrightarrow> t \<in> set (split_acc cur s) \<Longrightarrow>
     t \<noteq> [] \<and> (\<forall>ch \<in> set t. \<not> isspace ch)"
proof (induction s arbitrary: cur)
  case Nil
  then show ?case by (cases "cur = []") simp_all
next
  case (Cons a s)
  show ?case
  proof (cases "isspace a")
    case True
    show ?thesis
    proof (cases "cur = []")
      case True
      with \<open>isspace a\<close> Cons.prems(2) have "t \<in> set (split_acc [] s)" by simp
      then show ?thesis using Cons.IH[of "[]"] by simp
    next
      case False
      with \<open>isspace a\<close> Cons.prems(2) have "t = cur \<or> t \<in> set (split_acc [] s)" by simp
      then show ?thesis using Cons.IH[of "[]"] Cons.prems(1) False by auto
    qed
  next
    case False
    with Cons.prems(2) have "t \<in> set (split_acc (cur @ [a]) s)" by simp
    moreover from False Cons.prems(1) have "\<forall>ch \<in> set (cur @ [a]). \<not> isspace ch" by simp
    ultimately show ?thesis using Cons.IH[of "cur @ [a]"] by blast
  qed
qed

lemma py_split_tokens:
  "t \<in> set (py_split s) \<Longrightarrow> t \<noteq> [] \<and> (\<forall>ch \<in> set t. \<not> isspace ch)"
  using split_acc_tokens[of "[]" t s] by (simp add: py_split_def)

lemma py_strip_nonblank:
  assumes "ch \<in> set s" and "\<not> isspace ch"
  shows "py_strip s \<noteq> []"
proof -
  from assms have "dropWhile isspace s \<noteq> []"
    by (auto simp: dropWhile_eq_Nil_conv)
  then have "\<not> isspace (hd (dropWhile isspace s))"
    and "hd (dropWhile isspace s) \<in> set (dropWhile isspace s)"
    by (simp_all add: hd_dropWhile)
  then have "\<exists>x \<in> set (rev (dropWhile isspace s)). \<not> isspace x"
    by auto
  then have "dropWhile isspace (rev (dropWhile isspace s)) \<noteq> []"
    by (simp add: dropWhile_eq_Nil_conv)
  then show ?thesis by (simp add: py_strip_def)
qed

lemma py_strip_has_nonspace:
  assumes "py_strip s \<noteq> []"
  shows "\<exists>ch \<in> set (py_strip s). \<not> isspace ch"
proof -
  let ?d = "dropWhile isspace (rev (dropWhile isspace s))"
  from assms have ne: "?d \<noteq> []" by (simp add: py_strip_def)
  then have "\<not> isspace (hd ?d)" by (simp add: hd_dropWhile)
  moreover from ne have "hd ?d \<in> set ?d" by simp
  ultimately show ?thesis by (auto simp: py_strip_def)
qed

lemma join_contains: "x \<in> set xs \<Longrightarrow> set x \<subseteq> set (join sep xs)"
  by (induction sep xs rule: join.induct) auto

lemma attachments_text_bracket:
  "get_attachments_text m \<noteq> [] \<Longrightarrow> CHR ''['' \<in> set (get_attachments_text m)"
proof -
  have a: "urls \<noteq> [] \<Longrightarrow> CHR ''['' \<in> set (attachments_text i urls)" for i urls
    by (cases urls) simp_all
  have b: "st \<noteq> [] \<Longrightarrow> CHR ''['' \<in> set (stickers_text st)" for st
    by (cases st) auto
  assume "get_attachments_text m \<noteq> []"
  then have "r_attachments m \<noteq> [] \<or> r_stickers m \<noteq> []"
    by (auto simp: get_attachments_text_def)
  with a[of "r_attachments m" 0] b[of "r_stickers m"] show ?thesis
    by (auto simp: get_attachments_text_def)
qed

text \<open>
  The value that \<^verbatim>\<open>_handle_add\<close> hands to the store, when its arguments are tokens
  of \<^verbatim>\<open>split()\<close>, is never empty after trimming: either the state is unchanged, or
  a value with a non-empty trimmed form has been stored under the key.
\<close>

lemma handle_add_stores_nonblank:
  assumes tokens: "\<forall>t \<in> set args. t \<noteq> [] \<and> (\<forall>ch \<in> set t. \<not> isspace ch)"
  shows "snd (handle_add c e s user args reply ow) = s
       \<or> (\<exists>v. py_strip v \<noteq> []
              \<and> snd (handle_add c e s user args reply ow)
                  = s\<lparr>db := AList.update user
                              (AList.update (args ! 1) v (db_get (db s) user)) (db s)\<rparr>)"
proof -
  have store: "snd (case store_text c e s user k v ow of
                      (Inl err, s') \<Rightarrow> (result FAILURE ''Failed to add text'', s')
                    | (Inr res, s') \<Rightarrow> (res, s')) = s
       \<or> snd (case store_text c e s user k v ow of
                      (Inl err, s') \<Rightarrow> (result FAILURE ''Failed to add text'', s')
                    | (Inr res, s') \<Rightarrow> (res, s'))
           = s\<lparr>db := AList.update user (AList.update k v (db_get (db s) user)) (db s)\<rparr>" for k v
    by (simp add: store_text_def Let_def split: option.splits)
  consider (short) "length args < 2" | (two) "length args = 2" | (more) "2 < length args"
    by linarith
  then show ?thesis
  proof cases
    case short
    then show ?thesis by (simp add: handle_add_def)
  next
    case two
    show ?thesis
    proof (cases reply)
      case None
      with two show ?thesis by (simp add: handle_add_def)
    next
      case (Some r)
      show ?thesis
      proof (cases "resolved r")
        case None
        with two Some show ?thesis by (simp add: handle_add_def)
      next
        case (Some m)
        let ?v = "py_strip (r_content m) @ get_attachments_text m"
        show ?thesis
        proof (cases "?v = []")
          case True
          with two \<open>reply = Some r\<close> Some show ?thesis by (simp add: handle_add_def)
        next
          case False
          have "\<exists>ch \<in> set ?v. \<not> isspace ch"
          proof (cases "py_strip (r_content m) = []")
            case True
            have "\<not> isspace CHR ''[''"
              by (simp add: isspace_def)
            with True False attachments_text_bracket[of m] show ?thesis
              by auto
          next
            case False
            with py_strip_has_nonspace[of "r_content m"] show ?thesis by auto
          qed
          then have nb: "py_strip ?v \<noteq> []"
            using py_strip_nonblank by blast
          have "snd (handle_add c e s user args reply ow)
                  = snd (case store_text c e s user (args ! 1) ?v ow of
                      (Inl err, s') \<Rightarrow> (result FAILURE ''Failed to add text'', s')
                    | (Inr res, s') \<Rightarrow> (res, s'))"
            using two \<open>reply = Some r\<close> Some False by (auto simp: handle_add_def Let_def)
          with store[of "args ! 1" ?v] nb show ?thesis by metis
        qed
      qed
    qed
  next
    case more
    let ?v = "join '' '' (drop 2 args)"
    from more have d: "args ! 2 \<in> set (drop 2 args)"
      by (metis Cons_nth_drop_Suc list.set_intros(1))
    from more have "args ! 2 \<in> set args"
      by simp
    with tokens have "args ! 2 \<noteq> []" and ns: "\<forall>ch \<in> set (args ! 2). \<not> isspace ch"
      by blast+
    then obtain ch where ch: "ch \<in> set (args ! 2)"
      by (cases "args ! 2") auto
    with join_contains[OF d, of "'' ''"] have "ch \<in> set ?v"
      by blast
    with ch ns have "\<exists>ch \<in> set ?v. \<not> isspace ch"
      by blast
    then have nb: "py_strip ?v \<noteq> []"
      using py_strip_nonblank by blast
    have "snd (handle_add c e s user args reply ow)
            = snd (case store_text c e s user (args ! 1) ?v ow of
                (Inl err, s') \<Rightarrow> (result FAILURE ''Failed to add text'', s')
              | (Inr res, s') \<Rightarrow> (res, s'))"
      using more by (simp add: handle_add_def)
    with store[of "args ! 1" ?v] nb show ?thesis by metis
  qed
qed

text \<open>
  C2. The claim is that the store rejects a value that is empty after trimming.
  \<^verbatim>\<open>store_text\<close> makes no such check: on the example it stores a single space.
\<close>

theorem store_text_accepts_blank_value:
  "py_strip '' '' = []
   \<and> fst (store_text example_constants example_env example_state 7 ''k'' '' '' False)
       = Inr (result SUCCESS ''Done'')
   \<and> retrieve_text example_env
       (snd (store_text example_constants example_env example_state 7 ''k'' '' '' False))
       7 ''k'' = Some '' ''
   \<and> retrieve_text example_env example_state 7 ''k'' = None"
  by (simp add: py_strip_def isspace_def store_text_def retrieve_text_def db_get_def Let_def
      example_constants_def example_env_def example_state_def)

text \<open>
  C2, amended. The check is made by the add command on the value it takes from a
  replied-to message: for every user and key, when the trimmed content of that message
  followed by the text of its attachments and stickers is empty, \<^verbatim>\<open>_handle_add\<close>
  returns the failure \<^verbatim>\<open>EMPTY_MESSAGE\<close> and leaves the state as it was.
\<close>

theorem handle_add_rejects_empty_reply:
  assumes "args = [a0, K]" and "reply = Some r" and "resolved r = Some m"
    and "py_strip (r_content m) @ get_attachments_text m = []"
  shows "handle_add c e s U args reply overwrite = (result FAILURE (EMPTY_MESSAGE c), s)"
  using assms by (simp add: handle_add_def)

theorem handle_add_rejects_empty_reply_witness:
  "resolved (Reference (Some \<lparr>r_id = 400, r_content = ''  '', r_attachments = [],
                               r_stickers = []\<rparr>))
     = Some \<lparr>r_id = 400, r_content = ''  '', r_attachments = [], r_stickers = []\<rparr>
   \<and> py_strip (r_content \<lparr>r_id = 400, r_content = ''  '', r_attachments = [],
                           r_stickers = []\<rparr>)
       @ get_attachments_text \<lparr>r_id = 400, r_content = ''  '', r_attachments = [],
                                r_stickers = []\<rparr> = []
   \<and> handle_add example_constants example_env example_state 42 [''add'', ''blank'']
        (Some (Reference (Some \<lparr>r_id = 400, r_content = ''  '', r_attachments = [],
                                 r_stickers = []\<rparr>))) False
       = (result FAILURE (EMPTY_MESSAGE example_constants), example_state)"
proof -
  let ?m = "\<lparr>r_id = 400, r_content = ''  '', r_attachments = [], r_stickers = []\<rparr>"
  have r: "resolved (Reference (Some ?m)) = Some ?m"
    by simp
  have v: "py_strip (r_content ?m) @ get_attachments_text ?m = []"
    by (simp add: py_strip_def isspace_def get_attachments_text_def)
  from handle_add_rejects_empty_reply[OF refl refl r v] r v
  show ?thesis by blast
qed

end
